theory Spec2Isabelle
  imports Main
begin

section \<open>Python string primitives used by the view function\<close>

text \<open>
  The file \<^verbatim>\<open>server_gif.py\<close> has one function with behaviour of its own,
  \<^verbatim>\<open>serve_face_gif\<close>, the view behind \<^verbatim>\<open>GET /face.gif\<close>. It uses three
  built-ins of Python on strings: \<^verbatim>\<open>str.split(',')\<close>, \<^verbatim>\<open>str.strip()\<close> and
  \<^verbatim>\<open>int(...)\<close>. They are written out here.

  A Python \<^verbatim>\<open>str\<close> is a sequence of code points. It is modelled as a \<^typ>\<open>string\<close>
  whose characters are the code points U+0000 to U+00FF; the model therefore covers the
  requests whose parameters stay in that range. The characters that \<^verbatim>\<open>str.isspace\<close>
  accepts in that range are the twelve listed in \<open>whitespace\<close>.
\<close>

definition whitespace :: "char list" where
  "whitespace =
     [CHR 0x09, CHR 0x0A, CHR 0x0B, CHR 0x0C, CHR 0x0D,
      CHR 0x1C, CHR 0x1D, CHR 0x1E, CHR 0x1F, CHR 0x20, CHR 0x85, CHR 0xA0]"

definition py_isspace :: "char \<Rightarrow> bool" where
  "py_isspace c = (c \<in> set whitespace)"

text \<open>\<^verbatim>\<open>s.strip()\<close>: leading and trailing whitespace removed.\<close>

definition py_strip :: "string \<Rightarrow> string" where
  "py_strip s = rev (dropWhile py_isspace (rev (dropWhile py_isspace s)))"

text \<open>
  \<^verbatim>\<open>s.split(sep)\<close> for a separator of one character: the pieces between the
  occurrences of the separator, so one piece more than there are separators, and
  \<^verbatim>\<open>''.split(',') == ['']\<close>. The case of an empty recursive result cannot arise;
  it keeps the function total.
\<close>

fun py_split :: "string \<Rightarrow> char \<Rightarrow> string list" where
  "py_split [] sep = [[]]"
| "py_split (c # cs) sep =
     (if c = sep then [] # py_split cs sep
      else (case py_split cs sep of
              [] \<Rightarrow> [[c]]
            | p # ps \<Rightarrow> (c # p) # ps))"

text \<open>
  \<^verbatim>\<open>int(s)\<close> for a string, base 10: surrounding whitespace is skipped, one sign is
  allowed, then decimal digits, where single underscores may stand between digits.
  Anything else raises \<^verbatim>\<open>ValueError\<close>, and so does a literal of more digits than the
  interpreter's default limit (\<^verbatim>\<open>sys.int_info.default_max_str_digits\<close>).

  The whitespace that \<^verbatim>\<open>int\<close> skips is narrower than that of \<^verbatim>\<open>str.strip\<close>:
  the four separators U+001C to U+001F are not skipped (for the string of U+001C
  followed by the digit 5, \<^verbatim>\<open>int\<close> raises \<^verbatim>\<open>ValueError\<close>, where
  \<^verbatim>\<open>strip\<close> returns \<^verbatim>\<open>'5'\<close>). In the range U+0000 to U+00FF it skips the
  eight characters listed in \<open>int_whitespace\<close>.
\<close>

datatype py_exception = ValueError

definition py_isdigit :: "char \<Rightarrow> bool" where
  "py_isdigit c = (c \<in> set ''0123456789'')"

definition digit_value :: "char \<Rightarrow> int" where
  "digit_value c = int (of_char c) - 48"

definition decimal_value :: "string \<Rightarrow> int" where
  "decimal_value ds = foldl (\<lambda>acc c. 10 * acc + digit_value c) 0 ds"

definition default_max_str_digits :: nat where
  "default_max_str_digits = 4300"

definition digit_group :: "string \<Rightarrow> bool" where
  "digit_group g = (g \<noteq> [] \<and> list_all py_isdigit g)"

definition int_whitespace :: "char list" where
  "int_whitespace =
     [CHR 0x09, CHR 0x0A, CHR 0x0B, CHR 0x0C, CHR 0x0D, CHR 0x20, CHR 0x85, CHR 0xA0]"

definition int_isspace :: "char \<Rightarrow> bool" where
  "int_isspace c = (c \<in> set int_whitespace)"

definition py_int :: "string \<Rightarrow> py_exception + int" where
  "py_int s =
     (let t = rev (dropWhile int_isspace (rev (dropWhile int_isspace s)));
          negative = (case t of [] \<Rightarrow> False | c # _ \<Rightarrow> c = CHR ''-'');
          signed = (case t of [] \<Rightarrow> False | c # _ \<Rightarrow> c = CHR ''-'' \<or> c = CHR ''+'');
          groups = py_split (if signed then tl t else t) (CHR ''_'');
          digits = concat groups
      in if list_all digit_group groups \<and> length digits \<le> default_max_str_digits
         then Inr (if negative then - decimal_value digits else decimal_value digits)
         else Inl ValueError)"

section \<open>Requests, responses and the external collaborators\<close>

text \<open>
  \<^verbatim>\<open>request.args\<close> is the parsed query string: the pairs of name and value in the
  order of the URL. \<^verbatim>\<open>request.args.get(k, default)\<close> is the first value under the
  name, and the default only when the name is absent (a name present with an empty
  value yields the empty string).
\<close>

record request =
  args :: "(string \<times> string) list"

definition args_get :: "(string \<times> string) list \<Rightarrow> string \<Rightarrow> string \<Rightarrow> string" where
  "args_get a k dflt = (case map_of a k of None \<Rightarrow> dflt | Some v \<Rightarrow> v)"

text \<open>
  \<^verbatim>\<open>Response(body, status=..., mimetype=...)\<close>; the status is 200 when it is not
  given. A byte string is a \<^typ>\<open>string\<close> too.
\<close>

record response =
  status :: nat
  mimetype :: string
  body :: string

text \<open>
  The keyword arguments of \<^verbatim>\<open>Image.save\<close> as the view passes them, and the
  environment of the view: the two flags set at import time and the library calls.
  \<^verbatim>\<open>generate_svg\<close> belongs to the module \<^verbatim>\<open>generate_face_gif\<close>, which is not
  part of the sources at hand; \<^verbatim>\<open>cairosvg.svg2png\<close>, \<^verbatim>\<open>Image.open\<close> and
  \<^verbatim>\<open>Image.save\<close> are library code. All four are parameters. Each returns
  \<open>Inr\<close> of its result, or \<open>Inl\<close> of the text \<^verbatim>\<open>str(e)\<close> of the
  \<^verbatim>\<open>Exception\<close> it raises. \<open>svg2png env svg w h\<close> stands for the call
  \<^verbatim>\<open>cairosvg.svg2png(bytestring=svg.encode('utf-8'), output_width=w, output_height=h)\<close>,
  \<open>Image_open env png\<close> for \<^verbatim>\<open>Image.open(BytesIO(png))\<close>, and
  \<open>Image_save env img kw\<close> for \<^verbatim>\<open>img.save(output, **kw)\<close> followed by reading
  \<^verbatim>\<open>output\<close> from its start.
\<close>

record 'img save_kwargs =
  format :: string
  save_all :: bool
  append_images :: "'img list"
  duration :: int
  loop :: int
  optimize :: bool

record 'img env =
  HAS_CAIRO :: bool
  HAS_PIL :: bool
  generate_svg :: "string \<Rightarrow> string + string"
  svg2png :: "string \<Rightarrow> nat \<Rightarrow> nat \<Rightarrow> string + string"
  Image_open :: "string \<Rightarrow> string + 'img"
  Image_save :: "'img \<Rightarrow> 'img save_kwargs \<Rightarrow> string + string"

section \<open>The view \<^verbatim>\<open>serve_face_gif\<close>\<close>

text \<open>Line 132: \<^verbatim>\<open>seeds = [s.strip() for s in seeds_param.split(',')]\<close>.\<close>

definition parse_seeds :: "string \<Rightarrow> string list" where
  "parse_seeds seeds_param = map py_strip (py_split seeds_param (CHR '',''))"

text \<open>Line 134: \<^verbatim>\<open>not seeds or not seeds[0]\<close>, the second operand read only for a
  list that is not empty.\<close>

definition seeds_rejected :: "string list \<Rightarrow> bool" where
  "seeds_rejected seeds = (case seeds of [] \<Rightarrow> True | s # _ \<Rightarrow> s = [])"

text \<open>Lines 144 to 150: the body of the loop, one seed to one frame.\<close>

definition render_frame :: "'img env \<Rightarrow> string \<Rightarrow> string + 'img" where
  "render_frame env seed =
     (case generate_svg env seed of
        Inl e \<Rightarrow> Inl e
      | Inr svg_content \<Rightarrow>
          (case svg2png env svg_content 400 480 of
             Inl e \<Rightarrow> Inl e
           | Inr png_data \<Rightarrow> Image_open env png_data))"

text \<open>Lines 142 to 151: the loop, appending each frame to the list built so far; the
  first exception ends it.\<close>

fun render_frames :: "'img env \<Rightarrow> string list \<Rightarrow> 'img list \<Rightarrow> string + 'img list" where
  "render_frames env [] frames = Inr frames"
| "render_frames env (seed # seeds) frames =
     (case render_frame env seed of
        Inl e \<Rightarrow> Inl e
      | Inr img \<Rightarrow> render_frames env seeds (frames @ [img]))"

text \<open>Lines 154 to 164: \<^verbatim>\<open>frames[0].save(...)\<close>; indexing an empty list raises
  \<^verbatim>\<open>IndexError\<close>.\<close>

definition save_gif :: "'img env \<Rightarrow> 'img list \<Rightarrow> int \<Rightarrow> string + string" where
  "save_gif env frames d =
     (case frames of
        [] \<Rightarrow> Inl ''list index out of range''
      | first # rest \<Rightarrow>
          Image_save env first
            \<lparr>format = ''GIF'', save_all = True, append_images = rest,
             duration = d, loop = 0, optimize = True\<rparr>)"

definition seeds_required :: response where
  "seeds_required =
     \<lparr>status = 400, mimetype = ''text/plain'',
      body = ''Error: 'seeds' parameter required (comma-separated list)''\<rparr>"

definition cairosvg_required :: response where
  "cairosvg_required =
     \<lparr>status = 500, mimetype = ''text/plain'',
      body = ''GIF generation requires cairosvg. Install: pip install cairosvg''\<rparr>"

definition pillow_required :: response where
  "pillow_required =
     \<lparr>status = 500, mimetype = ''text/plain'',
      body = ''GIF generation requires Pillow. Install: pip install pillow''\<rparr>"

text \<open>Lines 131 to 166: the body of the \<^verbatim>\<open>try\<close> statement. \<open>Inl e\<close> is an
  exception with text \<open>e\<close> leaving the body, \<open>Inr r\<close> a \<^verbatim>\<open>return\<close> inside it.\<close>

definition try_body :: "'img env \<Rightarrow> string \<Rightarrow> int \<Rightarrow> string + response" where
  "try_body env seeds_param d =
     (let seeds = parse_seeds seeds_param in
      if seeds_rejected seeds then Inr seeds_required
      else
        (case render_frames env seeds [] of
           Inl e \<Rightarrow> Inl e
         | Inr frames \<Rightarrow>
             (case save_gif env frames d of
                Inl e \<Rightarrow> Inl e
              | Inr output \<Rightarrow>
                  Inr \<lparr>status = 200, mimetype = ''image/gif'', body = output\<rparr>)))"

text \<open>Line 114: \<^verbatim>\<open>int(request.args.get('duration', 1000))\<close>; the default is
  already an integer.\<close>

definition get_duration :: "request \<Rightarrow> py_exception + int" where
  "get_duration req =
     (case map_of (args req) ''duration'' of
        None \<Rightarrow> Inr 1000
      | Some v \<Rightarrow> py_int v)"

text \<open>
  Lines 111 to 173, in the order of the source: both parameters are read and the
  duration is converted; then the two flags are tested; then the \<^verbatim>\<open>try\<close>
  statement runs, whose handler turns every exception of its body into a response.
  \<open>Inl\<close> is an exception that leaves the view, \<open>Inr\<close> the response it returns.
\<close>

definition serve_face_gif :: "'img env \<Rightarrow> request \<Rightarrow> py_exception + response" where
  "serve_face_gif env req =
     (let seeds_param = args_get (args req) ''seeds'' ''default'' in
      case get_duration req of
        Inl exn \<Rightarrow> Inl exn
      | Inr d \<Rightarrow>
          if \<not> HAS_CAIRO env then Inr cairosvg_required
          else if \<not> HAS_PIL env then Inr pillow_required
          else
            (case try_body env seeds_param d of
               Inl e \<Rightarrow>
                 Inr \<lparr>status = 500, mimetype = ''text/plain'',
                      body = ''Error generating GIF: '' @ e\<rparr>
             | Inr r \<Rightarrow> Inr r))"

section \<open>Joining pieces with commas\<close>

text \<open>
  \<^verbatim>\<open>','.join(pieces)\<close>. The view does not call it; it names the raw strings whose
  comma-separated pieces are the given ones, so that the normalisation of a raw
  string can be stated piece by piece.
\<close>

fun comma_join :: "string list \<Rightarrow> string" where
  "comma_join [] = []"
| "comma_join [p] = p"
| "comma_join (p # q # ps) = p @ CHR '','' # comma_join (q # ps)"

section \<open>A sample environment\<close>

text \<open>
  An environment in which every collaborator succeeds, used to run the view on
  concrete requests: a frame is the seed between brackets, and the encoder writes the
  frames in the order it receives them, each followed by a semicolon.
\<close>

definition sample_env :: "string env" where
  "sample_env =
     \<lparr>HAS_CAIRO = True, HAS_PIL = True,
      generate_svg = (\<lambda>seed. Inr (''<'' @ seed @ ''>'')),
      svg2png = (\<lambda>svg w h. Inr svg),
      Image_open = (\<lambda>png. Inr png),
      Image_save = (\<lambda>first kw. Inr (concat (map (\<lambda>f. f @ '';'') (first # append_images kw))))\<rparr>"







section \<open>Splitting and trimming\<close>

lemma py_split_not_Nil: "py_split s sep \<noteq> []"
  by (induction s) (auto split: list.splits)

lemma py_split_piece:
  "sep \<notin> set p \<Longrightarrow> py_split (p @ sep # rest) sep = p # py_split rest sep"
  by (induction p) auto

lemma py_split_single: "sep \<notin> set p \<Longrightarrow> py_split p sep = [p]"
  by (induction p) auto

lemma py_split_comma_join:
  "pieces \<noteq> [] \<Longrightarrow> \<forall>p\<in>set pieces. CHR '','' \<notin> set p \<Longrightarrow>
     py_split (comma_join pieces) (CHR '','') = pieces"
  by (induction pieces rule: comma_join.induct) (auto simp: py_split_piece py_split_single)

lemma py_split_no_sep: "p \<in> set (py_split s sep) \<Longrightarrow> sep \<notin> set p"
  by (induction s arbitrary: p) (auto split: if_splits list.splits)

lemma length_py_split: "length (py_split s sep) = Suc (count_list s sep)"
  by (induction s) (auto split: list.splits simp: py_split_not_Nil)

lemma comma_join_py_split: "comma_join (py_split s (CHR '','')) = s"
proof (induction s)
  case Nil
  then show ?case by simp
next
  case (Cons c cs)
  then show ?case
    by (cases "py_split cs (CHR '','')"; cases "tl (py_split cs (CHR '',''))")
       (auto simp: py_split_not_Nil)
qed

text \<open>Trimming the end of a list leaves a prefix of it.\<close>

lemma rstrip_prefix: "\<exists>ws. ys = rev (dropWhile P (rev ys)) @ ws"
proof -
  have "rev ys = takeWhile P (rev ys) @ dropWhile P (rev ys)" by simp
  then have "ys = rev (dropWhile P (rev ys)) @ rev (takeWhile P (rev ys))"
    by (metis rev_append rev_rev_ident)
  then show ?thesis by blast
qed

lemma py_strip_hd: "py_strip s \<noteq> [] \<Longrightarrow> \<not> py_isspace (hd (py_strip s))"
proof -
  assume ne: "py_strip s \<noteq> []"
  let ?ys = "dropWhile py_isspace s"
  obtain ws where ys: "?ys = py_strip s @ ws"
    using rstrip_prefix [of ?ys py_isspace] by (auto simp: py_strip_def)
  from ne ys have "hd (py_strip s) = hd ?ys" by (metis hd_append2)
  moreover from ne ys have "?ys \<noteq> []" by auto
  then have "\<not> py_isspace (hd ?ys)" by (rule hd_dropWhile)
  ultimately show ?thesis by simp
qed

lemma py_strip_last: "py_strip s \<noteq> [] \<Longrightarrow> \<not> py_isspace (last (py_strip s))"
proof -
  assume ne: "py_strip s \<noteq> []"
  let ?zs = "dropWhile py_isspace (rev (dropWhile py_isspace s))"
  from ne have nz: "?zs \<noteq> []" by (simp add: py_strip_def)
  then have "\<not> py_isspace (hd ?zs)" by (rule hd_dropWhile)
  moreover have "last (py_strip s) = hd ?zs"
    using nz by (simp add: py_strip_def last_rev)
  ultimately show ?thesis by simp
qed

lemma py_strip_idem: "py_strip (py_strip s) = py_strip s"
proof (cases "py_strip s = []")
  case True
  have "py_strip [] = []" by (simp add: py_strip_def)
  with True show ?thesis by simp
next
  case False
  let ?t = "py_strip s"
  have a: "dropWhile py_isspace ?t = ?t"
    using False py_strip_hd [of s] by (simp add: dropWhile_eq_self_iff)
  have "hd (rev ?t) = last ?t" using False by (simp add: hd_rev)
  then have b: "dropWhile py_isspace (rev ?t) = rev ?t"
    using False py_strip_last [of s] by (simp add: dropWhile_eq_self_iff)
  show ?thesis
    unfolding py_strip_def [of ?t] a b by simp
qed

lemma set_py_strip: "set (py_strip s) \<subseteq> set s"
proof -
  have "set (py_strip s) \<subseteq> set (dropWhile py_isspace s)"
    unfolding py_strip_def using set_dropWhileD by fastforce
  also have "\<dots> \<subseteq> set s" using set_dropWhileD by fastforce
  finally show ?thesis .
qed

lemma hd_py_split: "hd (py_split s sep) = takeWhile (\<lambda>c. c \<noteq> sep) s"
  by (induction s) (auto split: list.splits simp: py_split_not_Nil)

text \<open>
  What \<open>py_strip\<close> removes is whitespace before and after what it keeps, and what it
  keeps neither begins nor ends with whitespace; these two facts determine its result.
\<close>

lemma rstrip_split: "ys = rev (dropWhile P (rev ys)) @ rev (takeWhile P (rev ys))"
proof -
  have "rev ys = takeWhile P (rev ys) @ dropWhile P (rev ys)" by simp
  then show ?thesis by (metis rev_append rev_rev_ident)
qed

lemma py_strip_decomp:
  "\<exists>l r. p = l @ py_strip p @ r \<and> list_all py_isspace l \<and> list_all py_isspace r"
proof -
  let ?l = "takeWhile py_isspace p"
  let ?ys = "dropWhile py_isspace p"
  let ?r = "rev (takeWhile py_isspace (rev ?ys))"
  have "?ys = py_strip p @ ?r"
    using rstrip_split [of ?ys py_isspace] by (simp add: py_strip_def)
  then have "?l @ ?ys = ?l @ py_strip p @ ?r" by simp
  then have "p = ?l @ py_strip p @ ?r" by simp
  moreover have "list_all py_isspace ?l"
    using set_takeWhileD [of _ py_isspace p] by (auto simp: list_all_iff)
  moreover have "list_all py_isspace ?r"
    using set_takeWhileD [of _ py_isspace "rev ?ys"] by (auto simp: list_all_iff)
  ultimately show ?thesis by blast
qed

lemma py_strip_unique:
  assumes p: "p = l @ t @ r"
    and l: "list_all py_isspace l" and r: "list_all py_isspace r"
    and t: "t = [] \<or> (\<not> py_isspace (hd t) \<and> \<not> py_isspace (last t))"
  shows "py_strip p = t"
proof (cases "t = []")
  case True
  with p l r have "\<forall>c\<in>set p. py_isspace c" by (auto simp: list_all_iff)
  then have "dropWhile py_isspace p = []" by simp
  with True show ?thesis by (simp add: py_strip_def del: dropWhile_eq_Nil_conv)
next
  case False
  with t have h: "\<not> py_isspace (hd t)" and e: "\<not> py_isspace (last t)" by simp_all
  from l have "dropWhile py_isspace (l @ t @ r) = dropWhile py_isspace (t @ r)"
    by (simp add: dropWhile_append2 list_all_iff)
  also from False h have "\<dots> = t @ r" by (cases t) simp_all
  finally have a: "dropWhile py_isspace p = t @ r" using p by simp
  from r have "dropWhile py_isspace (rev r @ rev t) = dropWhile py_isspace (rev t)"
    using dropWhile_append2 [of "rev r" py_isspace "rev t"] by (simp add: list_all_iff)
  also from False e have "\<dots> = rev t"
    by (cases "rev t") (simp_all add: last_rev [symmetric, of "rev t", simplified])
  finally have "dropWhile py_isspace (rev (t @ r)) = rev t" by simp
  with a show ?thesis by (simp add: py_strip_def)
qed

lemma py_strip_trimmed:
  "py_strip p = [] \<or> (\<not> py_isspace (hd (py_strip p)) \<and> \<not> py_isspace (last (py_strip p)))"
  using py_strip_hd [of p] py_strip_last [of p] by blast

lemma py_strip_spec:
  "\<exists>l r. p = l @ py_strip p @ r \<and> list_all py_isspace l \<and> list_all py_isspace r \<and>
     (py_strip p = [] \<or>
      (\<not> py_isspace (hd (py_strip p)) \<and> \<not> py_isspace (last (py_strip p))))"
  using py_strip_decomp [of p] py_strip_trimmed [of p] by blast

lemma py_strip_empty_iff: "(py_strip p = []) = list_all py_isspace p"
proof
  assume "py_strip p = []"
  with py_strip_decomp [of p] show "list_all py_isspace p" by auto
next
  assume "list_all py_isspace p"
  then have "dropWhile py_isspace p = []" by (simp add: list_all_iff)
  then show "py_strip p = []" by (simp add: py_strip_def del: dropWhile_eq_Nil_conv)
qed

lemma parse_seeds_not_Nil: "parse_seeds s \<noteq> []"
  by (simp add: parse_seeds_def py_split_not_Nil)

lemma parse_seeds_comma_join:
  "pieces \<noteq> [] \<Longrightarrow> \<forall>p\<in>set pieces. CHR '','' \<notin> set p \<Longrightarrow>
     parse_seeds (comma_join pieces) = map py_strip pieces"
  by (simp add: parse_seeds_def py_split_comma_join)

lemma raw_is_comma_join:
  "\<exists>ps. ps \<noteq> [] \<and> list_all (\<lambda>p. CHR '','' \<notin> set p) ps \<and> comma_join ps = raw"
proof -
  have "py_split raw (CHR '','') \<noteq> [] \<and>
        list_all (\<lambda>p. CHR '','' \<notin> set p) (py_split raw (CHR '','')) \<and>
        comma_join (py_split raw (CHR '','')) = raw"
    using py_split_no_sep [of _ raw "CHR '',''"]
    by (auto simp: py_split_not_Nil comma_join_py_split list_all_iff)
  then show ?thesis by blast
qed

text \<open>
  Claim C8. The raw string made of the pieces \<open>pieces\<close> (none holding a comma) joined
  by commas normalises to one token for each piece, in the order of the pieces, and
  every raw string is such a join. The token of a piece is the piece with its
  surrounding whitespace removed and nothing else changed: the piece is whitespace,
  then the token, then whitespace, and the token is empty or neither begins nor ends
  with whitespace. No other string stands in this relation to the piece. The input
  \<^verbatim>\<open>" a , b "\<close> normalises to exactly \<^verbatim>\<open>["a", "b"]\<close>.
\<close>

theorem seeds_trimmed_in_order:
  assumes "pieces \<noteq> []" and "\<forall>p\<in>set pieces. CHR '','' \<notin> set p"
  shows "parse_seeds (comma_join pieces) = map py_strip pieces \<and>
         list_all
           (\<lambda>p. \<exists>l r. p = l @ py_strip p @ r \<and> list_all py_isspace l \<and> list_all py_isspace r \<and>
                  (py_strip p = [] \<or>
                   (\<not> py_isspace (hd (py_strip p)) \<and> \<not> py_isspace (last (py_strip p)))))
           pieces \<and>
         (\<forall>p l t r. p = l @ t @ r \<and> list_all py_isspace l \<and> list_all py_isspace r \<and>
                    (t = [] \<or> (\<not> py_isspace (hd t) \<and> \<not> py_isspace (last t)))
                    \<longrightarrow> py_strip p = t) \<and>
         (\<exists>ps. ps \<noteq> [] \<and> list_all (\<lambda>p. CHR '','' \<notin> set p) ps \<and> comma_join ps = raw) \<and>
         list_all (\<lambda>t. t = [] \<or> (\<not> py_isspace (hd t) \<and> \<not> py_isspace (last t)))
           (parse_seeds raw) \<and>
         parse_seeds '' a , b '' = [''a'', ''b'']"
proof (intro conjI)
  show "parse_seeds (comma_join pieces) = map py_strip pieces"
    using assms by (rule parse_seeds_comma_join)
  show "list_all
           (\<lambda>p. \<exists>l r. p = l @ py_strip p @ r \<and> list_all py_isspace l \<and> list_all py_isspace r \<and>
                  (py_strip p = [] \<or>
                   (\<not> py_isspace (hd (py_strip p)) \<and> \<not> py_isspace (last (py_strip p)))))
           pieces"
    by (rule list_all_iff [THEN iffD2]) (intro ballI, rule py_strip_spec)
  show "\<forall>p l t r. p = l @ t @ r \<and> list_all py_isspace l \<and> list_all py_isspace r \<and>
                    (t = [] \<or> (\<not> py_isspace (hd t) \<and> \<not> py_isspace (last t)))
                    \<longrightarrow> py_strip p = t"
  proof (intro allI impI)
    fix p l t r
    assume "p = l @ t @ r \<and> list_all py_isspace l \<and> list_all py_isspace r \<and>
            (t = [] \<or> (\<not> py_isspace (hd t) \<and> \<not> py_isspace (last t)))"
    then have "p = l @ t @ r" and "list_all py_isspace l" and "list_all py_isspace r"
      and "t = [] \<or> (\<not> py_isspace (hd t) \<and> \<not> py_isspace (last t))"
      by simp_all
    then show "py_strip p = t" by (rule py_strip_unique)
  qed
  show "\<exists>ps. ps \<noteq> [] \<and> list_all (\<lambda>p. CHR '','' \<notin> set p) ps \<and> comma_join ps = raw"
    by (rule raw_is_comma_join)
  show "list_all (\<lambda>t. t = [] \<or> (\<not> py_isspace (hd t) \<and> \<not> py_isspace (last t)))
           (parse_seeds raw)"
    using py_strip_hd py_strip_last by (auto simp: parse_seeds_def list_all_iff)
  show "parse_seeds '' a , b '' = [''a'', ''b'']"
    by (simp add: parse_seeds_def py_strip_def py_isspace_def whitespace_def)
qed

theorem seeds_trimmed_in_order_witness:
  "comma_join ['' a '', '' b ''] = '' a , b '' \<and>
   parse_seeds (comma_join ['' a '', '' b '']) = map py_strip ['' a '', '' b ''] \<and>
   map py_strip ['' a '', '' b ''] = [''a'', ''b''] \<and>
   py_strip (''  '' @ ''a b'' @ '' '') = ''a b''"
proof -
  have h1: "['' a '', '' b ''] \<noteq> []" by simp
  have h2: "\<forall>p\<in>set ['' a '', '' b '']. CHR '','' \<notin> set p" by simp
  note th = seeds_trimmed_in_order [OF h1 h2]
  have m: "map py_strip ['' a '', '' b ''] = [''a'', ''b'']"
    by (simp add: py_strip_def py_isspace_def whitespace_def)
  have pre: "''  '' @ ''a b'' @ '' '' = ''  '' @ ''a b'' @ '' '' \<and>
             list_all py_isspace ''  '' \<and> list_all py_isspace '' '' \<and>
             (''a b'' = [] \<or> (\<not> py_isspace (hd ''a b'') \<and> \<not> py_isspace (last ''a b'')))"
    by (simp add: py_isspace_def whitespace_def)
  have u: "py_strip (''  '' @ ''a b'' @ '' '') = ''a b''"
    by (rule th [THEN conjunct2, THEN conjunct2, THEN conjunct1,
                 THEN spec, THEN spec, THEN spec, THEN spec, THEN mp, OF pre])
  from th have "parse_seeds (comma_join ['' a '', '' b '']) = map py_strip ['' a '', '' b '']"
    by (rule conjunct1)
  with m u show ?thesis by simp
qed

section \<open>The frames and the call of the encoder\<close>

lemma render_frame_Inr:
  "(render_frame env seed = Inr img) =
     (\<exists>svg png. generate_svg env seed = Inr svg \<and> svg2png env svg 400 480 = Inr png \<and>
        Image_open env png = Inr img)"
  by (auto simp: render_frame_def split: sum.splits)

lemma render_frames_map:
  "render_frames env seeds acc = Inr frames \<Longrightarrow>
     \<exists>fs. frames = acc @ fs \<and> map (render_frame env) seeds = map Inr fs"
proof (induction seeds arbitrary: acc)
  case Nil
  then show ?case by simp
next
  case (Cons seed seeds)
  then obtain img where img: "render_frame env seed = Inr img"
    and rest: "render_frames env seeds (acc @ [img]) = Inr frames"
    by (auto split: sum.splits)
  from Cons.IH [OF rest] obtain fs where "frames = (acc @ [img]) @ fs"
    and "map (render_frame env) seeds = map Inr fs" by blast
  then have "frames = acc @ (img # fs) \<and>
             map (render_frame env) (seed # seeds) = map Inr (img # fs)"
    using img by simp
  then show ?case by blast
qed


lemma save_gif_call:
  "save_gif env frames d = Inr out \<Longrightarrow>
     \<exists>first rest. frames = first # rest \<and>
        Image_save env first
          \<lparr>format = ''GIF'', save_all = True, append_images = rest,
           duration = d, loop = 0, optimize = True\<rparr> = Inr out"
  by (cases frames) (auto simp: save_gif_def)

text \<open>The only path to a response of status 200.\<close>

lemma serve_success:
  assumes "serve_face_gif env req = Inr r" and "status r = 200"
  shows "\<exists>d frames. get_duration req = Inr d \<and> HAS_CAIRO env \<and> HAS_PIL env \<and>
           \<not> seeds_rejected (parse_seeds (args_get (args req) ''seeds'' ''default'')) \<and>
           render_frames env (parse_seeds (args_get (args req) ''seeds'' ''default'')) []
             = Inr frames \<and>
           save_gif env frames d = Inr (body r)"
  using assms
  by (auto simp: serve_face_gif_def try_body_def Let_def seeds_required_def
        cairosvg_required_def pillow_required_def split: sum.splits if_splits)






section \<open>The loop count\<close>







section \<open>Determinism\<close>






section \<open>The duration\<close>

lemma py_int_1000: "py_int ''1000'' = Inr 1000"
  by code_simp

text \<open>
  Claim C7 says that no request with a non-positive duration yields an animation. The
  view converts the parameter and hands the integer to the encoder with no test of its
  sign: with an encoder that accepts it, the request \<^verbatim>\<open>?seeds=a&duration=0\<close> is
  answered with an animation.
\<close>

theorem zero_duration_accepted:
  "get_duration \<lparr>args = [(''seeds'', ''a''), (''duration'', ''0'')]\<rparr> = Inr 0 \<and>
   serve_face_gif sample_env \<lparr>args = [(''seeds'', ''a''), (''duration'', ''0'')]\<rparr>
     = Inr \<lparr>status = 200, mimetype = ''image/gif'', body = ''<a>;''\<rparr>"
  by code_simp

text \<open>
  Claim C7, as amended. When the view answers with an animation, the duration given to
  the encoder is the integer that \<^verbatim>\<open>int\<close> reads from the parameter; a request
  without the parameter has the duration 1000 and is treated as the same request with
  \<^verbatim>\<open>duration=1000\<close>; and for any integer, positive or not, the response is decided by
  the encoder alone once the frames are rendered.
\<close>

theorem duration_reaches_encoder_unchecked:
  "(serve_face_gif env req = Inr r \<and> status r = 200 \<longrightarrow>
      (\<exists>d first kw. get_duration req = Inr d \<and> duration kw = d \<and>
         Image_save env first kw = Inr (body r))) \<and>
   (map_of (args req) ''duration'' = None \<longrightarrow>
      get_duration req = Inr 1000 \<and>
      serve_face_gif env req
        = serve_face_gif env (req\<lparr>args := (''duration'', ''1000'') # args req\<rparr>)) \<and>
   (get_duration req = Inr d \<and> HAS_CAIRO env \<and> HAS_PIL env \<and>
    \<not> seeds_rejected (parse_seeds (args_get (args req) ''seeds'' ''default'')) \<and>
    render_frames env (parse_seeds (args_get (args req) ''seeds'' ''default'')) [] = Inr frames \<longrightarrow>
      serve_face_gif env req =
        (case save_gif env frames d of
           Inl e \<Rightarrow> Inr \<lparr>status = 500, mimetype = ''text/plain'',
                          body = ''Error generating GIF: '' @ e\<rparr>
         | Inr out \<Rightarrow> Inr \<lparr>status = 200, mimetype = ''image/gif'', body = out\<rparr>))"
proof (intro conjI impI)
  assume a: "serve_face_gif env req = Inr r \<and> status r = 200"
  from serve_success [of env req r] a obtain d frames where
    d: "get_duration req = Inr d" and saved: "save_gif env frames d = Inr (body r)" by blast
  from save_gif_call [OF saved] obtain first rest where
    "Image_save env first
       \<lparr>format = ''GIF'', save_all = True, append_images = rest,
        duration = d, loop = 0, optimize = True\<rparr> = Inr (body r)" by blast
  with d show "\<exists>d first kw. get_duration req = Inr d \<and> duration kw = d \<and>
         Image_save env first kw = Inr (body r)"
    by force
next
  assume "map_of (args req) ''duration'' = None"
  then show "get_duration req = Inr 1000" by (simp add: get_duration_def)
next
  assume n: "map_of (args req) ''duration'' = None"
  let ?req = "req\<lparr>args := (''duration'', ''1000'') # args req\<rparr>"
  have "get_duration ?req = get_duration req"
    using n by (simp add: get_duration_def py_int_1000)
  moreover have "args_get (args ?req) ''seeds'' ''default'' = args_get (args req) ''seeds'' ''default''"
    by (simp add: args_get_def)
  ultimately show "serve_face_gif env req = serve_face_gif env ?req"
    by (simp add: serve_face_gif_def)
next
  assume "get_duration req = Inr d \<and> HAS_CAIRO env \<and> HAS_PIL env \<and>
    \<not> seeds_rejected (parse_seeds (args_get (args req) ''seeds'' ''default'')) \<and>
    render_frames env (parse_seeds (args_get (args req) ''seeds'' ''default'')) [] = Inr frames"
  then show "serve_face_gif env req =
        (case save_gif env frames d of
           Inl e \<Rightarrow> Inr \<lparr>status = 500, mimetype = ''text/plain'',
                          body = ''Error generating GIF: '' @ e\<rparr>
         | Inr out \<Rightarrow> Inr \<lparr>status = 200, mimetype = ''image/gif'', body = out\<rparr>)"
    by (simp add: serve_face_gif_def try_body_def split: sum.splits)
qed

theorem duration_reaches_encoder_unchecked_witness:
  "(\<exists>first kw. duration kw = 0 \<and> Image_save sample_env first kw = Inr ''<a>;'') \<and>
   get_duration \<lparr>args = [(''seeds'', ''a'')]\<rparr> = Inr 1000 \<and>
   serve_face_gif sample_env \<lparr>args = [(''seeds'', ''a'')]\<rparr>
     = serve_face_gif sample_env \<lparr>args = [(''duration'', ''1000''), (''seeds'', ''a'')]\<rparr> \<and>
   serve_face_gif sample_env \<lparr>args = [(''seeds'', ''a''), (''duration'', ''-5'')]\<rparr>
     = Inr \<lparr>status = 200, mimetype = ''image/gif'', body = ''<a>;''\<rparr>"
proof -
  let ?zero = "\<lparr>args = [(''seeds'', ''a''), (''duration'', ''0'')]\<rparr>"
  let ?none = "\<lparr>args = [(''seeds'', ''a'')]\<rparr>"
  let ?neg = "\<lparr>args = [(''seeds'', ''a''), (''duration'', ''-5'')]\<rparr>"
  let ?r = "\<lparr>status = 200, mimetype = ''image/gif'', body = ''<a>;''\<rparr>"
  have run: "serve_face_gif sample_env ?zero = Inr ?r \<and> status ?r = 200" by code_simp
  have dz: "get_duration ?zero = Inr 0" by code_simp
  from duration_reaches_encoder_unchecked [of sample_env ?zero ?r, THEN conjunct1, THEN mp, OF run]
  have one: "\<exists>first kw. duration kw = 0 \<and> Image_save sample_env first kw = Inr ''<a>;''"
    unfolding dz by auto
  have absent: "map_of (args ?none) ''duration'' = None" by simp
  from duration_reaches_encoder_unchecked
         [of sample_env ?none, THEN conjunct2, THEN conjunct1, THEN mp, OF absent]
  have two: "get_duration ?none = Inr 1000 \<and>
     serve_face_gif sample_env ?none
       = serve_face_gif sample_env \<lparr>args = [(''duration'', ''1000''), (''seeds'', ''a'')]\<rparr>"
    by simp
  have pre: "get_duration ?neg = Inr (- 5) \<and> HAS_CAIRO sample_env \<and> HAS_PIL sample_env \<and>
    \<not> seeds_rejected (parse_seeds (args_get (args ?neg) ''seeds'' ''default'')) \<and>
    render_frames sample_env (parse_seeds (args_get (args ?neg) ''seeds'' ''default'')) []
      = Inr [''<a>'']"
    by code_simp
  have enc: "save_gif sample_env [''<a>''] (- 5) = Inr ''<a>;''"
    by (simp add: save_gif_def sample_env_def)
  from duration_reaches_encoder_unchecked
         [of sample_env ?neg _ "- 5" "[''<a>'']", THEN conjunct2, THEN conjunct2, THEN mp, OF pre]
  have three: "serve_face_gif sample_env ?neg = Inr ?r"
    unfolding enc by simp
  from one two three show ?thesis by blast
qed

section \<open>The check of the seeds\<close>

lemma parse_seeds_default: "parse_seeds ''default'' = [''default'']"
  by code_simp

lemma parse_seeds_empty: "parse_seeds [] = [[]]"
  by code_simp

lemma parse_seeds_comma: "parse_seeds '','' = [[], []]"
  by code_simp

lemma seeds_rejected_hd: "seeds_rejected (parse_seeds raw) = (hd (parse_seeds raw) = [])"
  using parse_seeds_not_Nil [of raw]
  by (cases "parse_seeds raw") (simp_all add: seeds_rejected_def)

text \<open>
  Claim C4 says that a request with \<^verbatim>\<open>seeds=\<close> (the parameter present and empty)
  uses the default token and does not fail. The default of
  \<^verbatim>\<open>request.args.get\<close> applies to an absent parameter only: the empty value
  is split into one empty token, and the view answers 400.
\<close>

theorem explicit_empty_seeds_rejected:
  "args_get (args \<lparr>args = [(''seeds'', [])]\<rparr>) ''seeds'' ''default'' = [] \<and>
   serve_face_gif sample_env \<lparr>args = [(''seeds'', [])]\<rparr> = Inr seeds_required \<and>
   status seeds_required = 400"
  by code_simp

text \<open>
  Claim C4, as amended. With both capabilities present and a duration that converts:
  a request without the seeds parameter uses the one token \<^verbatim>\<open>default\<close>, is not
  answered with the 400 response, and is treated as the same request with
  \<^verbatim>\<open>seeds=default\<close>; a request with \<^verbatim>\<open>seeds=\<close> or with \<^verbatim>\<open>seeds=,\<close> is
  answered with status 400 and the body
  \<^verbatim>\<open>Error: 'seeds' parameter required (comma-separated list)\<close>.
\<close>

theorem absent_seeds_defaulted_empty_rejected:
  assumes "HAS_CAIRO env" and "HAS_PIL env" and "get_duration req = Inr d"
  shows "(map_of (args req) ''seeds'' = None \<longrightarrow>
            parse_seeds (args_get (args req) ''seeds'' ''default'') = [''default''] \<and>
            serve_face_gif env req \<noteq> Inr seeds_required \<and>
            serve_face_gif env req
              = serve_face_gif env (req\<lparr>args := (''seeds'', ''default'') # args req\<rparr>)) \<and>
         (map_of (args req) ''seeds'' = Some [] \<longrightarrow>
            serve_face_gif env req = Inr seeds_required) \<and>
         (map_of (args req) ''seeds'' = Some '','' \<longrightarrow>
            serve_face_gif env req = Inr seeds_required) \<and>
         seeds_required =
           \<lparr>status = 400, mimetype = ''text/plain'',
            body = ''Error: 'seeds' parameter required (comma-separated list)''\<rparr>"
proof (intro conjI impI)
  assume n: "map_of (args req) ''seeds'' = None"
  then have p: "args_get (args req) ''seeds'' ''default'' = ''default''"
    by (simp add: args_get_def)
  show "parse_seeds (args_get (args req) ''seeds'' ''default'') = [''default'']"
    unfolding p by (rule parse_seeds_default)
  have "try_body env ''default'' d \<noteq> Inr seeds_required"
    by (simp add: try_body_def parse_seeds_default seeds_rejected_def seeds_required_def
          split: sum.splits)
  then show "serve_face_gif env req \<noteq> Inr seeds_required"
    using assms p
    by (auto simp: serve_face_gif_def seeds_required_def split: sum.splits)
  let ?req = "req\<lparr>args := (''seeds'', ''default'') # args req\<rparr>"
  have "get_duration ?req = get_duration req"
    by (simp add: get_duration_def)
  moreover have "args_get (args ?req) ''seeds'' ''default'' = ''default''"
    by (simp add: args_get_def)
  ultimately show "serve_face_gif env req = serve_face_gif env ?req"
    using p by (simp add: serve_face_gif_def)
next
  assume "map_of (args req) ''seeds'' = Some []"
  then have "args_get (args req) ''seeds'' ''default'' = []"
    by (simp add: args_get_def)
  then show "serve_face_gif env req = Inr seeds_required"
    using assms
    by (simp add: serve_face_gif_def try_body_def parse_seeds_empty seeds_rejected_def)
next
  assume "map_of (args req) ''seeds'' = Some '',''"
  then have "args_get (args req) ''seeds'' ''default'' = '',''"
    by (simp add: args_get_def)
  then show "serve_face_gif env req = Inr seeds_required"
    using assms
    by (simp add: serve_face_gif_def try_body_def parse_seeds_comma seeds_rejected_def)
next
  show "seeds_required =
           \<lparr>status = 400, mimetype = ''text/plain'',
            body = ''Error: 'seeds' parameter required (comma-separated list)''\<rparr>"
    by (simp add: seeds_required_def)
qed

theorem absent_seeds_defaulted_empty_rejected_witness:
  "serve_face_gif sample_env \<lparr>args = []\<rparr>
     = Inr \<lparr>status = 200, mimetype = ''image/gif'', body = ''<default>;''\<rparr> \<and>
   serve_face_gif sample_env \<lparr>args = []\<rparr>
     = serve_face_gif sample_env \<lparr>args = [(''seeds'', ''default'')]\<rparr> \<and>
   serve_face_gif sample_env \<lparr>args = [(''seeds'', [])]\<rparr> = Inr seeds_required \<and>
   serve_face_gif sample_env \<lparr>args = [(''seeds'', '','')]\<rparr> = Inr seeds_required"
proof -
  have c: "HAS_CAIRO sample_env" and p: "HAS_PIL sample_env"
    by (simp_all add: sample_env_def)
  have d: "\<And>a. get_duration \<lparr>args = [(''seeds'', a)]\<rparr> = Inr 1000"
    and d0: "get_duration \<lparr>args = []\<rparr> = Inr 1000"
    by (simp_all add: get_duration_def)
  have run: "serve_face_gif sample_env \<lparr>args = []\<rparr>
     = Inr \<lparr>status = 200, mimetype = ''image/gif'', body = ''<default>;''\<rparr>"
    by code_simp
  from absent_seeds_defaulted_empty_rejected [OF c p d0, THEN conjunct1]
  have one: "serve_face_gif sample_env \<lparr>args = []\<rparr>
     = serve_face_gif sample_env \<lparr>args = [(''seeds'', ''default'')]\<rparr>"
    by simp
  from absent_seeds_defaulted_empty_rejected [OF c p d, of "[]", THEN conjunct2, THEN conjunct1]
  have two: "serve_face_gif sample_env \<lparr>args = [(''seeds'', [])]\<rparr> = Inr seeds_required"
    by simp
  from absent_seeds_defaulted_empty_rejected
         [OF c p d, of "'',''", THEN conjunct2, THEN conjunct2, THEN conjunct1]
  have three: "serve_face_gif sample_env \<lparr>args = [(''seeds'', '','')]\<rparr> = Inr seeds_required"
    by simp
  from run one two three show ?thesis by simp
qed

text \<open>
  Claim C3 says that no token of the normalised list that reaches the synthesiser is
  empty. The view tests the first token only: \<^verbatim>\<open>"a,,b"\<close> normalises to
  \<^verbatim>\<open>["a", "", "b"]\<close>, the list passes the test, and the empty token is rendered
  as the second frame.
\<close>

theorem empty_token_reaches_synthesizer:
  "parse_seeds ''a,,b'' = [''a'', [], ''b''] \<and>
   \<not> seeds_rejected (parse_seeds ''a,,b'') \<and>
   render_frame sample_env [] = Inr ''<>'' \<and>
   serve_face_gif sample_env \<lparr>args = [(''seeds'', ''a,,b'')]\<rparr>
     = Inr \<lparr>status = 200, mimetype = ''image/gif'', body = ''<a>;<>;<b>;''\<rparr>"
  by code_simp

lemma hd_parse_seeds:
  "hd (parse_seeds raw) = py_strip (takeWhile (\<lambda>c. c \<noteq> CHR '','') raw)"
  by (simp add: parse_seeds_def hd_map py_split_not_Nil hd_py_split)

lemma first_token_decides:
  assumes "HAS_CAIRO env" and "HAS_PIL env" and "get_duration req = Inr d"
  shows "(serve_face_gif env req = Inr seeds_required) =
           (hd (parse_seeds (args_get (args req) ''seeds'' ''default'')) = [])"
  using assms
  by (auto simp: serve_face_gif_def try_body_def Let_def seeds_required_def
        seeds_rejected_hd split: sum.splits)

text \<open>
  Claim C3, as amended. For every raw seeds string the normalised list has one token
  for each comma-separated piece, in the order of the pieces, and the token of a piece
  is the piece with its surrounding whitespace removed: the piece is whitespace, then
  the token, then whitespace, and the token is empty or neither begins nor ends with
  whitespace. Only the first token is tested: the list is rejected exactly when its
  first token is empty, that is when the raw string holds nothing but whitespace
  before its first comma; with both capabilities present and a duration that
  converts, the view then answers with status 400 and the body
  \<^verbatim>\<open>Error: 'seeds' parameter required (comma-separated list)\<close>, and it gives
  this answer in no other case. So when the view answers with an animation, the first
  token is not empty, and every token of the list, empty or not, has been given to
  \<^verbatim>\<open>generate_svg\<close> and rendered. The input \<^verbatim>\<open>"a,,b"\<close> yields
  \<^verbatim>\<open>["a", "", "b"]\<close>.
\<close>

theorem only_first_token_checked:
  "(pieces \<noteq> [] \<and> (\<forall>p\<in>set pieces. CHR '','' \<notin> set p) \<longrightarrow>
      parse_seeds (comma_join pieces) = map py_strip pieces) \<and>
   (\<exists>ps. ps \<noteq> [] \<and> list_all (\<lambda>p. CHR '','' \<notin> set p) ps \<and> comma_join ps = raw) \<and>
   (\<exists>pre post. p = pre @ py_strip p @ post \<and>
      list_all py_isspace pre \<and> list_all py_isspace post \<and>
      (py_strip p = [] \<or>
       (\<not> py_isspace (hd (py_strip p)) \<and> \<not> py_isspace (last (py_strip p))))) \<and>
   list_all (\<lambda>t. py_strip t = t \<and> CHR '','' \<notin> set t) (parse_seeds raw) \<and>
   length (parse_seeds raw) = Suc (count_list raw (CHR '','')) \<and>
   seeds_rejected (parse_seeds raw) = (hd (parse_seeds raw) = []) \<and>
   (hd (parse_seeds raw) = []) = list_all py_isspace (takeWhile (\<lambda>c. c \<noteq> CHR '','') raw) \<and>
   (HAS_CAIRO env \<and> HAS_PIL env \<and> get_duration req = Inr d \<longrightarrow>
      (serve_face_gif env req = Inr seeds_required) =
        (hd (parse_seeds (args_get (args req) ''seeds'' ''default'')) = [])) \<and>
   seeds_required =
     \<lparr>status = 400, mimetype = ''text/plain'',
      body = ''Error: 'seeds' parameter required (comma-separated list)''\<rparr> \<and>
   (serve_face_gif env req = Inr r \<and> status r = 200 \<longrightarrow>
      hd (parse_seeds (args_get (args req) ''seeds'' ''default'')) \<noteq> [] \<and>
      (\<forall>t\<in>set (parse_seeds (args_get (args req) ''seeds'' ''default'')).
         \<exists>svg png img. generate_svg env t = Inr svg \<and>
            svg2png env svg 400 480 = Inr png \<and> Image_open env png = Inr img)) \<and>
   parse_seeds ''a,,b'' = [''a'', [], ''b'']"
proof (intro conjI impI)
  assume "pieces \<noteq> [] \<and> (\<forall>p\<in>set pieces. CHR '','' \<notin> set p)"
  then show "parse_seeds (comma_join pieces) = map py_strip pieces"
    by (simp add: parse_seeds_comma_join)
next
  show "\<exists>ps. ps \<noteq> [] \<and> list_all (\<lambda>p. CHR '','' \<notin> set p) ps \<and> comma_join ps = raw"
    by (rule raw_is_comma_join)
  show "\<exists>pre post. p = pre @ py_strip p @ post \<and>
      list_all py_isspace pre \<and> list_all py_isspace post \<and>
      (py_strip p = [] \<or>
       (\<not> py_isspace (hd (py_strip p)) \<and> \<not> py_isspace (last (py_strip p))))"
    by (rule py_strip_spec)
  show "list_all (\<lambda>t. py_strip t = t \<and> CHR '','' \<notin> set t) (parse_seeds raw)"
    using py_split_no_sep [of _ raw "CHR '',''"] set_py_strip
    by (auto simp: parse_seeds_def list_all_iff py_strip_idem)
  show "length (parse_seeds raw) = Suc (count_list raw (CHR '',''))"
    by (simp add: parse_seeds_def length_py_split)
  show "seeds_rejected (parse_seeds raw) = (hd (parse_seeds raw) = [])"
    by (rule seeds_rejected_hd)
  show "(hd (parse_seeds raw) = []) = list_all py_isspace (takeWhile (\<lambda>c. c \<noteq> CHR '','') raw)"
    by (simp only: hd_parse_seeds py_strip_empty_iff)
  show "seeds_required =
     \<lparr>status = 400, mimetype = ''text/plain'',
      body = ''Error: 'seeds' parameter required (comma-separated list)''\<rparr>"
    by (simp add: seeds_required_def)
  show "parse_seeds ''a,,b'' = [''a'', [], ''b'']"
    by code_simp
next
  assume "HAS_CAIRO env \<and> HAS_PIL env \<and> get_duration req = Inr d"
  then show "(serve_face_gif env req = Inr seeds_required) =
        (hd (parse_seeds (args_get (args req) ''seeds'' ''default'')) = [])"
    by (simp add: first_token_decides)
next
  let ?seeds = "parse_seeds (args_get (args req) ''seeds'' ''default'')"
  assume a: "serve_face_gif env req = Inr r \<and> status r = 200"
  from serve_success [of env req r] a obtain frames where
    ok: "\<not> seeds_rejected ?seeds" and frames: "render_frames env ?seeds [] = Inr frames"
    by blast
  from ok show "hd ?seeds \<noteq> []" by (simp add: seeds_rejected_hd)
  from render_frames_map [OF frames]
  have m: "map (render_frame env) ?seeds = map Inr frames" by simp
  show "\<forall>t\<in>set ?seeds. \<exists>svg png img. generate_svg env t = Inr svg \<and>
            svg2png env svg 400 480 = Inr png \<and> Image_open env png = Inr img"
  proof
    fix t
    assume "t \<in> set ?seeds"
    then have "render_frame env t \<in> set (map (render_frame env) ?seeds)" by simp
    then have "render_frame env t \<in> set (map Inr frames)" unfolding m .
    then obtain img where "render_frame env t = Inr img" by auto
    then show "\<exists>svg png img. generate_svg env t = Inr svg \<and>
            svg2png env svg 400 480 = Inr png \<and> Image_open env png = Inr img"
      unfolding render_frame_Inr by blast
  qed
qed

theorem only_first_token_checked_witness:
  "serve_face_gif sample_env \<lparr>args = [(''seeds'', '' ,a,b'')]\<rparr> = Inr seeds_required \<and>
   parse_seeds (comma_join ['' a'', [], ''b '']) = [''a'', [], ''b''] \<and>
   hd (parse_seeds ''a,,b'') \<noteq> [] \<and>
   (\<exists>svg png img. generate_svg sample_env [] = Inr svg \<and>
      svg2png sample_env svg 400 480 = Inr png \<and> Image_open sample_env png = Inr img)"
proof -
  let ?bad = "\<lparr>args = [(''seeds'', '' ,a,b'')]\<rparr>"
  let ?req = "\<lparr>args = [(''seeds'', ''a,,b'')]\<rparr>"
  let ?r = "\<lparr>status = 200, mimetype = ''image/gif'', body = ''<a>;<>;<b>;''\<rparr>"
  have caps: "HAS_CAIRO sample_env \<and> HAS_PIL sample_env \<and> get_duration ?bad = Inr 1000"
    by (simp add: sample_env_def get_duration_def)
  have first: "hd (parse_seeds (args_get (args ?bad) ''seeds'' ''default'')) = []"
    by code_simp
  from only_first_token_checked [where env = sample_env and req = ?bad and d = 1000,
         THEN conjunct2, THEN conjunct2, THEN conjunct2, THEN conjunct2, THEN conjunct2,
         THEN conjunct2, THEN conjunct2, THEN conjunct1, THEN mp, OF caps]
  have one: "serve_face_gif sample_env ?bad = Inr seeds_required"
    using first by simp
  have pieces: "['' a'', [], ''b ''] \<noteq> [] \<and> (\<forall>p\<in>set ['' a'', [], ''b '']. CHR '','' \<notin> set p)"
    by simp
  have "map py_strip ['' a'', [], ''b ''] = [''a'', [], ''b'']"
    by (simp add: py_strip_def py_isspace_def whitespace_def)
  with only_first_token_checked [where pieces = "['' a'', [], ''b '']",
         THEN conjunct1, THEN mp, OF pieces]
  have two: "parse_seeds (comma_join ['' a'', [], ''b '']) = [''a'', [], ''b'']"
    by simp
  have run: "serve_face_gif sample_env ?req = Inr ?r \<and> status ?r = 200" by code_simp
  have raw: "args_get (args ?req) ''seeds'' ''default'' = ''a,,b''"
    by (simp add: args_get_def)
  have toks: "parse_seeds ''a,,b'' = [''a'', [], ''b'']" by code_simp
  from only_first_token_checked [where env = sample_env and req = ?req and r = ?r,
         THEN conjunct2, THEN conjunct2, THEN conjunct2, THEN conjunct2, THEN conjunct2,
         THEN conjunct2, THEN conjunct2, THEN conjunct2, THEN conjunct2, THEN conjunct1,
         THEN mp, OF run]
  have "hd (parse_seeds ''a,,b'') \<noteq> [] \<and>
        (\<forall>t\<in>set (parse_seeds ''a,,b'').
           \<exists>svg png img. generate_svg sample_env t = Inr svg \<and>
             svg2png sample_env svg 400 480 = Inr png \<and> Image_open sample_env png = Inr img)"
    unfolding raw .
  then have three: "hd (parse_seeds ''a,,b'') \<noteq> []"
    and four: "\<exists>svg png img. generate_svg sample_env [] = Inr svg \<and>
      svg2png sample_env svg 400 480 = Inr png \<and> Image_open sample_env png = Inr img"
    unfolding toks by simp_all
  from one two three four show ?thesis by simp
qed

section \<open>The conversion of the duration, the capability gate and the handler\<close>

text \<open>
  The conversion of line 114 stands before the tests of the two flags and outside the
  \<^verbatim>\<open>try\<close> statement. The lemmas below say what the view does on each side of it:
  an exception of the conversion leaves the view as it is; once the duration has
  converted, the flags are tested first, and every exception of the body of the
  \<^verbatim>\<open>try\<close> statement becomes a response.
\<close>

lemma duration_error_escapes:
  "get_duration req = Inl exn \<Longrightarrow> serve_face_gif env req = Inl exn"
  by (simp add: serve_face_gif_def)

lemma gate_cairosvg:
  "get_duration req = Inr d \<Longrightarrow> \<not> HAS_CAIRO env \<Longrightarrow>
     serve_face_gif env req = Inr cairosvg_required"
  by (simp add: serve_face_gif_def)

lemma gate_pillow:
  "get_duration req = Inr d \<Longrightarrow> HAS_CAIRO env \<Longrightarrow> \<not> HAS_PIL env \<Longrightarrow>
     serve_face_gif env req = Inr pillow_required"
  by (simp add: serve_face_gif_def)

lemma handler_catches:
  "get_duration req = Inr d \<Longrightarrow> HAS_CAIRO env \<Longrightarrow> HAS_PIL env \<Longrightarrow>
   try_body env (args_get (args req) ''seeds'' ''default'') d = Inl e \<Longrightarrow>
     serve_face_gif env req
       = Inr \<lparr>status = 500, mimetype = ''text/plain'', body = ''Error generating GIF: '' @ e\<rparr>"
  by (simp add: serve_face_gif_def)

lemma handler_returns:
  "get_duration req = Inr d \<Longrightarrow> HAS_CAIRO env \<Longrightarrow> HAS_PIL env \<Longrightarrow>
     \<exists>r. serve_face_gif env req = Inr r"
  by (simp add: serve_face_gif_def split: sum.splits)

lemma bad_request_needs_capabilities:
  "serve_face_gif env req = Inr r \<Longrightarrow> status r = 400 \<Longrightarrow> HAS_CAIRO env \<and> HAS_PIL env"
  by (auto simp: serve_face_gif_def cairosvg_required_def pillow_required_def
        split: sum.splits if_splits)

text \<open>
  Claim C5 says that for every request a missing cairosvg gives the 500 response with
  the cairosvg message, and otherwise a missing Pillow gives the 500 response with the
  Pillow message. For the request \<^verbatim>\<open>?seeds=x&duration=abc\<close> the conversion of the
  duration raises \<^verbatim>\<open>ValueError\<close> before either flag is tested, and the view
  returns neither response.
\<close>

theorem gate_preceded_by_duration_conversion:
  "serve_face_gif (sample_env\<lparr>HAS_CAIRO := False\<rparr>)
     \<lparr>args = [(''seeds'', ''x''), (''duration'', ''abc'')]\<rparr> = Inl ValueError \<and>
   serve_face_gif (sample_env\<lparr>HAS_PIL := False\<rparr>)
     \<lparr>args = [(''seeds'', ''x''), (''duration'', ''abc'')]\<rparr> = Inl ValueError"
  by code_simp

text \<open>
  Claim C6 says that, with both capabilities present, every other exception, the one
  of the conversion of the duration included, is answered with status 500 and the body
  \<^verbatim>\<open>Error generating GIF: \<close> followed by its text. The conversion stands outside
  the \<^verbatim>\<open>try\<close> statement: for \<^verbatim>\<open>?seeds=x&duration=abc\<close> the
  \<^verbatim>\<open>ValueError\<close> leaves the view and no response is built.
\<close>

theorem duration_error_not_handled:
  "get_duration \<lparr>args = [(''seeds'', ''x''), (''duration'', ''abc'')]\<rparr> = Inl ValueError \<and>
   HAS_CAIRO sample_env \<and> HAS_PIL sample_env \<and>
   serve_face_gif sample_env \<lparr>args = [(''seeds'', ''x''), (''duration'', ''abc'')]\<rparr>
     = Inl ValueError"
  by code_simp

text \<open>
  Claim C10 says that a missing capability is reported before any validation of the
  input. The 400 response does need both capabilities
  (\<open>bad_request_needs_capabilities\<close>), but the duration is converted before the flags
  are tested: for \<^verbatim>\<open>?seeds=,&duration=1.5\<close> without cairosvg the view raises
  \<^verbatim>\<open>ValueError\<close> where the claim has the cairosvg message.
\<close>

theorem duration_validated_before_capabilities:
  "serve_face_gif (sample_env\<lparr>HAS_CAIRO := False\<rparr>)
     \<lparr>args = [(''seeds'', '',''), (''duration'', ''1.5'')]\<rparr> = Inl ValueError \<and>
   serve_face_gif (sample_env\<lparr>HAS_CAIRO := False\<rparr>)
     \<lparr>args = [(''seeds'', '',''), (''duration'', ''15'')]\<rparr> = Inr cairosvg_required"
  by code_simp

end
